theory Spec2Isabelle
  imports Main
begin

section \<open>Country codes\<close>

text \<open>
  Every \<open>countryCode\<close> of \<open>src/index.js\<close> is documented as a string in "ISO 2-letter
  format", and the detected country of the external library is such a code or
  \<open>undefined\<close>. A country code is therefore a pair of characters; the names that a
  JavaScript object inherits from \<open>Object.prototype\<close> (all longer than two letters) are
  not country codes.
\<close>

datatype country = CC char char

fun code_string :: "country \<Rightarrow> string" where
  "code_string (CC a b) = [a, b]"

abbreviation US :: country where "US \<equiv> CC (CHR ''U'') (CHR ''S'')"
abbreviation UK :: country where "UK \<equiv> CC (CHR ''U'') (CHR ''K'')"
abbreviation UA :: country where "UA \<equiv> CC (CHR ''U'') (CHR ''A'')"
abbreviation FR :: country where "FR \<equiv> CC (CHR ''F'') (CHR ''R'')"
abbreviation DE :: country where "DE \<equiv> CC (CHR ''D'') (CHR ''E'')"
abbreviation CA :: country where "CA \<equiv> CC (CHR ''C'') (CHR ''A'')"
abbreviation GB :: country where "GB \<equiv> CC (CHR ''G'') (CHR ''B'')"

section \<open>Regular expressions\<close>

text \<open>
  The acceptance patterns are JavaScript \<open>RegExp\<close> objects without flags. The fragment
  modelled is the one the literals of the source are written in: a pattern is a sequence
  of terms, a term is the assertion \<open>^\<close>, the assertion \<open>$\<close>, a literal character, the
  class \<open>\d\<close>, or one of the last two under a quantifier \<open>{lo,hi}\<close> (\<open>{n}\<close> is
  \<open>{n,n}\<close>). A quantifier with \<open>hi < lo\<close> is a syntax error in JavaScript; here it
  matches nothing.
\<close>

datatype atom = Lit char | DigitClass

datatype rx_term = AssertStart | AssertEnd | Atom atom | Quant atom nat nat

type_synonym regexp = "rx_term list"

fun atom_matches :: "atom \<Rightarrow> char \<Rightarrow> bool" where
  "atom_matches (Lit a) c = (c = a)"
| "atom_matches DigitClass c = (c \<in> set ''0123456789'')"

text \<open>
  \<open>match_here r b s\<close>: the pattern \<open>r\<close> matches at the current position of the input,
  where \<open>s\<close> is the rest of the input from that position and \<open>b\<close> tells whether the
  position is the start of the input. Only the existence of a match is computed, which
  is all \<open>RegExp.prototype.test\<close> reports, so the order in which a backtracking engine
  tries the repetitions of a quantifier does not matter.
\<close>

fun match_here :: "regexp \<Rightarrow> bool \<Rightarrow> string \<Rightarrow> bool" where
  "match_here [] b s = True"
| "match_here (AssertStart # ts) b s = (b \<and> match_here ts b s)"
| "match_here (AssertEnd # ts) b s = (s = [] \<and> match_here ts b s)"
| "match_here (Atom a # ts) b [] = False"
| "match_here (Atom a # ts) b (c # s) = (atom_matches a c \<and> match_here ts False s)"
| "match_here (Quant a (Suc lo) hi # ts) b [] = False"
| "match_here (Quant a (Suc lo) 0 # ts) b (c # s) = False"
| "match_here (Quant a (Suc lo) (Suc hi) # ts) b (c # s) =
     (atom_matches a c \<and> match_here (Quant a lo hi # ts) False s)"
| "match_here (Quant a 0 hi # ts) b [] = match_here ts b []"
| "match_here (Quant a 0 0 # ts) b (c # s) = match_here ts b (c # s)"
| "match_here (Quant a 0 (Suc hi) # ts) b (c # s) =
     ((atom_matches a c \<and> match_here (Quant a 0 hi # ts) False s)
      \<or> match_here ts b (c # s))"

text \<open>
  \<open>test\<close> of a pattern without the \<open>g\<close> and \<open>y\<close> flags searches: it tries a match at
  every position of the input, from the first to the one past the last.
\<close>

fun search_from :: "regexp \<Rightarrow> bool \<Rightarrow> string \<Rightarrow> bool" where
  "search_from r b [] = match_here r b []"
| "search_from r b (c # s) = (match_here r b (c # s) \<or> search_from r False s)"

definition test :: "regexp \<Rightarrow> string \<Rightarrow> bool" where
  "test r s = search_from r True s"

text \<open>
  A full-string match, in the words of the specification: the pattern matches at the
  first position of the input and that match ends at the end of the input.
\<close>

definition full_match :: "regexp \<Rightarrow> string \<Rightarrow> bool" where
  "full_match r s = match_here (r @ [AssertEnd]) True s"

section \<open>The external parser\<close>

text \<open>
  \<open>parsePhoneNumberFromString\<close> of \<open>libphonenumber-js\<close> is not part of the repository.
  It is a parameter of the model: a function from the raw text and the default country
  to \<open>undefined\<close> (\<open>None\<close>) or a \<open>PhoneNumber\<close> object, of which the source reads
  \<open>isValid()\<close>, \<open>country\<close> (which may be \<open>undefined\<close>) and \<open>format('E.164')\<close>.
\<close>

record PhoneNumber =
  isValid :: bool
  country :: "country option"
  formatE164 :: string

type_synonym parser = "string \<Rightarrow> country \<Rightarrow> PhoneNumber option"

section \<open>Objects and the instance\<close>

text \<open>
  \<open>countryValidations\<close> is a mutable object that \<open>listSupportedCountries\<close> hands out by
  reference, so the tables live in a store and the instance holds an address.
  \<open>get_prop\<close>, \<open>set_prop\<close> and \<open>delete_prop\<close> are the property read \<open>o[k]\<close>, the
  assignment \<open>o[k] = v\<close> and \<open>delete o[k]\<close>. Reading with the key \<open>undefined\<close> reads the
  property named "undefined", which is not a country code and is never in a table.
\<close>

type_synonym addr = nat

type_synonym table = "country \<rightharpoonup> regexp"

type_synonym heap = "addr \<Rightarrow> table"

record PhoneNumberParser =
  countryValidations :: addr
  defaultCountry :: country

datatype js_error = Error string

definition get_prop :: "heap \<Rightarrow> addr \<Rightarrow> country option \<Rightarrow> regexp option" where
  "get_prop h a k = (case k of None \<Rightarrow> None | Some c \<Rightarrow> h a c)"

definition set_prop :: "heap \<Rightarrow> addr \<Rightarrow> country \<Rightarrow> regexp \<Rightarrow> heap" where
  "set_prop h a c r = h(a := (h a)(c \<mapsto> r))"

definition delete_prop :: "heap \<Rightarrow> addr \<Rightarrow> country \<Rightarrow> heap" where
  "delete_prop h a c = h(a := (h a)(c := None))"

section \<open>PhoneNumberParser\<close>

definition default_validations :: table where
  "default_validations =
     [US \<mapsto> [AssertStart, Atom (Lit (CHR ''+'')), Atom (Lit (CHR ''1'')),
             Quant DigitClass 10 10, AssertEnd],
      UK \<mapsto> [AssertStart, Atom (Lit (CHR ''+'')), Atom (Lit (CHR ''4'')),
             Atom (Lit (CHR ''4'')), Quant DigitClass 10 10, AssertEnd],
      UA \<mapsto> [AssertStart, Atom (Lit (CHR ''+'')), Atom (Lit (CHR ''3'')),
             Atom (Lit (CHR ''8'')), Atom (Lit (CHR ''0'')), Quant DigitClass 9 9,
             AssertEnd],
      FR \<mapsto> [AssertStart, Atom (Lit (CHR ''+'')), Atom (Lit (CHR ''3'')),
             Atom (Lit (CHR ''3'')), Quant DigitClass 9 9, AssertEnd],
      DE \<mapsto> [AssertStart, Atom (Lit (CHR ''+'')), Atom (Lit (CHR ''4'')),
             Atom (Lit (CHR ''9'')), Quant DigitClass 10 11, AssertEnd]]"

text \<open>
  The constructor: the object literal is allocated at a fresh address \<open>a\<close> of the
  store, and the new instance refers to it.
\<close>

definition constructor :: "addr \<Rightarrow> heap \<Rightarrow> heap \<times> PhoneNumberParser" where
  "constructor a h =
     (h(a := default_validations), \<lparr>countryValidations = a, defaultCountry = US\<rparr>)"

text \<open>
  \<open>parse(phoneNumber, countryCode = this.defaultCountry)\<close>; \<open>None\<close> for the second
  argument is the call that leaves it out. The result \<open>None\<close> is JavaScript's \<open>null\<close>.
\<close>

definition parse ::
  "parser \<Rightarrow> heap \<Rightarrow> PhoneNumberParser \<Rightarrow> string \<Rightarrow> country option \<Rightarrow> string option" where
  "parse lib h this phoneNumber countryCode =
     (case lib phoneNumber
             (case countryCode of None \<Rightarrow> defaultCountry this | Some c \<Rightarrow> c) of
        None \<Rightarrow> None
      | Some parsedNumber \<Rightarrow>
          if \<not> isValid parsedNumber then None
          else
            let formattedNumber = formatE164 parsedNumber;
                detectedCountry = country parsedNumber
            in (case get_prop h (countryValidations this) detectedCountry of
                  Some r \<Rightarrow> if \<not> test r formattedNumber then None else Some formattedNumber
                | None \<Rightarrow> Some formattedNumber))"

definition validate ::
  "parser \<Rightarrow> heap \<Rightarrow> PhoneNumberParser \<Rightarrow> string \<Rightarrow> country \<Rightarrow> js_error + bool" where
  "validate lib h this phoneNumber countryCode =
     (case get_prop h (countryValidations this) (Some countryCode) of
        None \<Rightarrow>
          Inl (Error (''Validation rules not defined for country: '' @ code_string countryCode))
      | Some r \<Rightarrow> Inr (parse lib h this phoneNumber (Some countryCode) \<noteq> None))"

definition addCountryValidation :: "PhoneNumberParser \<Rightarrow> country \<Rightarrow> regexp \<Rightarrow> heap \<Rightarrow> heap" where
  "addCountryValidation this countryCode regex h =
     set_prop h (countryValidations this) countryCode regex"

definition removeCountryValidation :: "PhoneNumberParser \<Rightarrow> country \<Rightarrow> heap \<Rightarrow> heap" where
  "removeCountryValidation this countryCode h =
     delete_prop h (countryValidations this) countryCode"

definition listSupportedCountries :: "PhoneNumberParser \<Rightarrow> addr" where
  "listSupportedCountries this = countryValidations this"

section \<open>A run of the source's usage examples\<close>

text \<open>
  The script at the end of \<open>src/index.js\<close> creates one instance and calls it on a few
  numbers. \<open>example_parser\<close> stands for the external library on some of those inputs
  and on \<open>2015550123\<close>, a number with a valid US area code, with the answers of the
  library (the default country matters only for a number without prefix). The library
  reports \<open>1234567890\<close> invalid, since no US area code starts with 1, so the result in
  the comment of line 89 is not what the call returns; it returns \<open>undefined\<close> for
  \<open>+999123456789\<close> and for text without digits. \<open>heap0\<close> is the store before the
  instance is created, and \<open>heap1\<close>, \<open>phoneParser\<close> are the store and the instance
  after \<open>new PhoneNumberParser()\<close>.
\<close>

definition example_parser :: parser where
  "example_parser text hint =
     (if text = ''2015550123'' \<and> hint = US then
        Some \<lparr>isValid = True, country = Some US, formatE164 = ''+12015550123''\<rparr>
      else if text = ''1234567890'' \<and> hint = US then
        Some \<lparr>isValid = False, country = Some US, formatE164 = ''+11234567890''\<rparr>
      else if text = ''0671234567'' \<and> hint = UA then
        Some \<lparr>isValid = True, country = Some UA, formatE164 = ''+380671234567''\<rparr>
      else if text = ''+442071838750'' then
        Some \<lparr>isValid = True, country = Some GB, formatE164 = ''+442071838750''\<rparr>
      else if text = ''+33612345678'' then
        Some \<lparr>isValid = True, country = Some FR, formatE164 = ''+33612345678''\<rparr>
      else if text = ''+15145551234'' then
        Some \<lparr>isValid = True, country = Some CA, formatE164 = ''+15145551234''\<rparr>
      else None)"

definition heap0 :: heap where
  "heap0 = (\<lambda>a. Map.empty)"

definition heap1 :: heap where
  "heap1 = fst (constructor 0 heap0)"

definition phoneParser :: PhoneNumberParser where
  "phoneParser = snd (constructor 0 heap0)"

section \<open>Facts about the matcher\<close>

lemma search_anchored_later: "search_from (AssertStart # ts) False s = False"
  by (induction s) simp_all

lemma test_anchored: "test (AssertStart # ts) s = match_here ts True s"
  by (cases s) (simp_all add: test_def search_anchored_later)

lemma quant_match:
  "match_here (Quant a lo hi # ts) b s \<longleftrightarrow>
     (\<exists>ds rest. s = ds @ rest \<and> lo \<le> length ds \<and> length ds \<le> hi
        \<and> list_all (atom_matches a) ds \<and> match_here ts (b \<and> ds = []) rest)"
proof (induction "Quant a lo hi # ts" b s arbitrary: lo hi rule: match_here.induct)
  case (6 lo hi b)
  then show ?case by simp
next
  case (7 lo b c s)
  then show ?case by simp
next
  case (8 lo hi b c s)
  show ?case
  proof
    assume "match_here (Quant a (Suc lo) (Suc hi) # ts) b (c # s)"
    then have c: "atom_matches a c" and m: "match_here (Quant a lo hi # ts) False s"
      by simp_all
    from m 8 obtain ds rest where "s = ds @ rest" "lo \<le> length ds" "length ds \<le> hi"
      "list_all (atom_matches a) ds" "match_here ts False rest"
      by auto
    with c show "\<exists>ds rest. c # s = ds @ rest \<and> Suc lo \<le> length ds \<and> length ds \<le> Suc hi
        \<and> list_all (atom_matches a) ds \<and> match_here ts (b \<and> ds = []) rest"
      by (intro exI [of _ "c # ds"] exI [of _ rest]) simp
  next
    assume "\<exists>ds rest. c # s = ds @ rest \<and> Suc lo \<le> length ds \<and> length ds \<le> Suc hi
        \<and> list_all (atom_matches a) ds \<and> match_here ts (b \<and> ds = []) rest"
    then obtain ds rest where r: "c # s = ds @ rest" "Suc lo \<le> length ds" "length ds \<le> Suc hi"
      "list_all (atom_matches a) ds" "match_here ts (b \<and> ds = []) rest"
      by blast
    from r(2) obtain ds' where ds: "ds = c # ds'" using r(1)
      by (cases ds) auto
    with r have "s = ds' @ rest \<and> lo \<le> length ds' \<and> length ds' \<le> hi
        \<and> list_all (atom_matches a) ds' \<and> match_here ts (False \<and> ds' = []) rest"
      by simp
    then have "match_here (Quant a lo hi # ts) False s"
      using 8 by blast
    with r(4) ds show "match_here (Quant a (Suc lo) (Suc hi) # ts) b (c # s)"
      by simp
  qed
next
  case (9 hi b)
  then show ?case by simp
next
  case (10 b c s)
  then show ?case by simp
next
  case (11 hi b c s)
  show ?case
  proof
    assume "match_here (Quant a 0 (Suc hi) # ts) b (c # s)"
    then consider (more) "atom_matches a c" "match_here (Quant a 0 hi # ts) False s"
      | (none) "match_here ts b (c # s)"
      by auto
    then show "\<exists>ds rest. c # s = ds @ rest \<and> 0 \<le> length ds \<and> length ds \<le> Suc hi
        \<and> list_all (atom_matches a) ds \<and> match_here ts (b \<and> ds = []) rest"
    proof cases
      case more
      with 11 obtain ds rest where "s = ds @ rest" "length ds \<le> hi"
        "list_all (atom_matches a) ds" "match_here ts False rest"
        by auto
      with more(1) show ?thesis
        by (intro exI [of _ "c # ds"] exI [of _ rest]) simp
    next
      case none
      then show ?thesis
        by (intro exI [of _ "[]"] exI [of _ "c # s"]) simp
    qed
  next
    assume "\<exists>ds rest. c # s = ds @ rest \<and> 0 \<le> length ds \<and> length ds \<le> Suc hi
        \<and> list_all (atom_matches a) ds \<and> match_here ts (b \<and> ds = []) rest"
    then obtain ds rest where r: "c # s = ds @ rest" "length ds \<le> Suc hi"
      "list_all (atom_matches a) ds" "match_here ts (b \<and> ds = []) rest"
      by blast
    show "match_here (Quant a 0 (Suc hi) # ts) b (c # s)"
    proof (cases ds)
      case Nil
      with r(1) have "rest = c # s" by simp
      with r(4) Nil show ?thesis by simp
    next
      case (Cons d ds')
      with r have "s = ds' @ rest \<and> 0 \<le> length ds' \<and> length ds' \<le> hi
        \<and> list_all (atom_matches a) ds' \<and> match_here ts (False \<and> ds' = []) rest"
        by simp
      then have "match_here (Quant a 0 hi # ts) False s"
        using 11 by blast
      with r Cons show ?thesis by simp
    qed
  qed
qed

lemma digits_language:
  "match_here [Quant a lo hi, AssertEnd] b s \<longleftrightarrow>
     (lo \<le> length s \<and> length s \<le> hi \<and> list_all (atom_matches a) s)"
  by (auto simp: quant_match)

lemma match_here_drop_end: "match_here (r @ [AssertEnd]) b s \<Longrightarrow> match_here r b s"
  by (induction r b s rule: match_here.induct) auto

lemma search_from_here: "match_here r b s \<Longrightarrow> search_from r b s"
  by (cases s) simp_all

lemma full_match_implies_test: "full_match r s \<Longrightarrow> test r s"
  by (simp add: full_match_def test_def match_here_drop_end search_from_here)

lemma test_anchored_full: "test (AssertStart # body @ [AssertEnd]) s = full_match body s"
  by (simp add: test_anchored full_match_def)

lemma match_lit:
  "match_here (Atom (Lit x) # ts) b s = (\<exists>s'. s = x # s' \<and> match_here ts False s')"
  by (cases s) auto

section \<open>Facts about the store and the example run\<close>

lemma digit_string: "list_all (atom_matches DigitClass) ds = (set ds \<subseteq> set ''0123456789'')"
  by (induction ds) auto

lemma get_set_prop: "get_prop (set_prop h a c r) a (Some c) = Some r"
  by (simp add: get_prop_def set_prop_def)

lemma get_delete_prop: "get_prop (delete_prop h a c) a (Some c) = None"
  by (simp add: get_prop_def delete_prop_def)

lemma parse_hit:
  "lib x (case cc of None \<Rightarrow> defaultCountry this | Some c \<Rightarrow> c) = Some p \<Longrightarrow>
   get_prop h (countryValidations this) (country p) = Some r \<Longrightarrow>
   parse lib h this x cc = (if isValid p \<and> test r (formatE164 p) then Some (formatE164 p) else None)"
  by (simp add: parse_def)

lemma heap1_table: "heap1 (countryValidations phoneParser) = default_validations"
  by (simp add: heap1_def phoneParser_def constructor_def)

lemma phoneParser_default: "defaultCountry phoneParser = US"
  by (simp add: phoneParser_def constructor_def)

section \<open>parse\<close>

text \<open>
  C1. For every raw input and default-country hint (given or left out), \<open>parse\<close>
  returns \<open>null\<close> when the external parser returns nothing or reports the number
  invalid. For a valid number, when the detected country has an entry in the policy table
  and the pattern's \<open>test\<close> accepts the E.164 form, \<open>parse\<close> returns the E.164
  form; when the detected country (or \<open>undefined\<close>) has no entry, \<open>parse\<close> returns
  the E.164 form on the parser's judgment alone.
\<close>

theorem parse_cases:
  "(lib x (case cc of None \<Rightarrow> defaultCountry this | Some c \<Rightarrow> c) = None
      \<longrightarrow> parse lib h this x cc = None)
   \<and> (lib x (case cc of None \<Rightarrow> defaultCountry this | Some c \<Rightarrow> c) = Some q \<and> \<not> isValid q
      \<longrightarrow> parse lib h this x cc = None)
   \<and> (lib x (case cc of None \<Rightarrow> defaultCountry this | Some c \<Rightarrow> c) = Some p \<and> isValid p
        \<and> country p = Some d \<and> h (countryValidations this) d = Some r
        \<and> test r (formatE164 p)
      \<longrightarrow> parse lib h this x cc = Some (formatE164 p))
   \<and> (lib x (case cc of None \<Rightarrow> defaultCountry this | Some c \<Rightarrow> c) = Some p \<and> isValid p
        \<and> get_prop h (countryValidations this) (country p) = None
      \<longrightarrow> parse lib h this x cc = Some (formatE164 p))"
  by (auto simp: parse_def get_prop_def)

theorem parse_cases_witness:
  "example_parser ''abcdefgh'' FR = None
   \<and> parse example_parser heap1 phoneParser ''abcdefgh'' (Some FR) = None
   \<and> \<not> isValid (the (example_parser ''1234567890'' US))
   \<and> parse example_parser heap1 phoneParser ''1234567890'' None = None
   \<and> heap1 (countryValidations phoneParser) UA \<noteq> None
   \<and> test (the (heap1 (countryValidations phoneParser) UA)) ''+380671234567''
   \<and> parse example_parser heap1 phoneParser ''0671234567'' (Some UA) = Some ''+380671234567''
   \<and> heap1 (countryValidations phoneParser) GB = None
   \<and> parse example_parser heap1 phoneParser ''+442071838750'' (Some UK) = Some ''+442071838750''"
proof -
  let ?bad = "\<lparr>isValid = False, country = Some US, formatE164 = ''+11234567890''\<rparr>"
  let ?ua = "\<lparr>isValid = True, country = Some UA, formatE164 = ''+380671234567''\<rparr>"
  let ?gb = "\<lparr>isValid = True, country = Some GB, formatE164 = ''+442071838750''\<rparr>"
  let ?r = "[AssertStart, Atom (Lit (CHR ''+'')), Atom (Lit (CHR ''3'')),
             Atom (Lit (CHR ''8'')), Atom (Lit (CHR ''0'')), Quant DigitClass 9 9, AssertEnd]"
  have e1: "example_parser ''abcdefgh'' FR = None"
    and e2: "example_parser ''1234567890'' US = Some ?bad"
    and e3: "example_parser ''0671234567'' UA = Some ?ua"
    and e4: "example_parser ''+442071838750'' UK = Some ?gb"
    by (simp_all add: example_parser_def)
  have t: "heap1 (countryValidations phoneParser) UA = Some ?r"
    and g: "heap1 (countryValidations phoneParser) GB = None"
    by (simp_all add: heap1_table default_validations_def)
  have m: "test ?r ''+380671234567''"
    by code_simp
  show ?thesis
    using parse_cases [where lib = example_parser and x = "''abcdefgh''" and cc = "Some FR"
          and this = phoneParser and h = heap1]
      parse_cases [where lib = example_parser and x = "''1234567890''" and cc = None
          and this = phoneParser and h = heap1 and q = ?bad]
      parse_cases [where lib = example_parser and x = "''0671234567''" and cc = "Some UA"
          and this = phoneParser and h = heap1 and p = ?ua and d = UA and r = ?r]
      parse_cases [where lib = example_parser and x = "''+442071838750''" and cc = "Some UK"
          and this = phoneParser and h = heap1 and p = ?gb]
      e1 e2 e3 e4 t g m
    by (simp add: phoneParser_default get_prop_def)
qed

text \<open>
  C2, as stated, fails: \<open>test\<close> searches, so an unanchored pattern registered with
  \<open>addCountryValidation\<close> accepts on a substring. With \<open>/\d/\<close> registered for US,
  \<open>parse\<close> returns \<open>+12015550123\<close>, which \<open>\d\<close> does not match as a whole.
\<close>

theorem parse_unanchored_pattern_counterexample:
  "get_prop (addCountryValidation phoneParser US [Atom DigitClass] heap1)
       (countryValidations phoneParser) (Some US) = Some [Atom DigitClass]
   \<and> parse example_parser (addCountryValidation phoneParser US [Atom DigitClass] heap1)
       phoneParser ''2015550123'' (Some US) = Some ''+12015550123''
   \<and> \<not> full_match [Atom DigitClass] ''+12015550123''"
proof -
  have e: "example_parser ''2015550123'' US
      = Some \<lparr>isValid = True, country = Some US, formatE164 = ''+12015550123''\<rparr>"
    by (simp add: example_parser_def)
  have t: "test [Atom DigitClass] ''+12015550123''"
    by code_simp
  have f: "\<not> full_match [Atom DigitClass] ''+12015550123''"
    by code_simp
  show ?thesis
    using e t f by (simp add: parse_def addCountryValidation_def get_set_prop)
qed

text \<open>
  C2, amended. For the pattern registered for the detected country, \<open>parse\<close> returns
  the E.164 form only if the pattern's \<open>test\<close> accepts it, and returns \<open>null\<close> when
  \<open>test\<close> rejects it. For patterns without flags, as the literals of the source are:
  \<open>test\<close> of a pattern anchored as \<open>^body$\<close> (the shape of the five default
  patterns) is the full-string match of \<open>body\<close>, and a full-string match of any such
  pattern passes its \<open>test\<close>.
\<close>

theorem parse_accepts_only_tested:
  "(lib x (case cc of None \<Rightarrow> defaultCountry this | Some c \<Rightarrow> c) = Some p
      \<and> get_prop h (countryValidations this) (country p) = Some r
      \<and> parse lib h this x cc = Some y
    \<longrightarrow> y = formatE164 p \<and> test r y)
   \<and> (lib x (case cc of None \<Rightarrow> defaultCountry this | Some c \<Rightarrow> c) = Some p
      \<and> get_prop h (countryValidations this) (country p) = Some r
      \<and> \<not> test r (formatE164 p)
    \<longrightarrow> parse lib h this x cc = None)
   \<and> test (AssertStart # body @ [AssertEnd]) s = full_match body s
   \<and> (full_match r s \<longrightarrow> test r s)"
  by (auto simp: parse_hit test_anchored_full full_match_implies_test split: if_splits)

theorem parse_accepts_only_tested_witness:
  "get_prop heap1 (countryValidations phoneParser) (Some US)
      = Some (AssertStart # [Atom (Lit (CHR ''+'')), Atom (Lit (CHR ''1'')),
                Quant DigitClass 10 10] @ [AssertEnd])
   \<and> parse example_parser heap1 phoneParser ''2015550123'' None = Some ''+12015550123''
   \<and> full_match [Atom (Lit (CHR ''+'')), Atom (Lit (CHR ''1'')), Quant DigitClass 10 10]
        ''+12015550123''
   \<and> get_prop (addCountryValidation phoneParser CA [Quant DigitClass 12 12] heap1)
        (countryValidations phoneParser) (Some CA) = Some [Quant DigitClass 12 12]
   \<and> \<not> test [Quant DigitClass 12 12] ''+15145551234''
   \<and> parse example_parser (addCountryValidation phoneParser CA [Quant DigitClass 12 12] heap1)
        phoneParser ''+15145551234'' (Some CA) = None"
proof -
  let ?us = "\<lparr>isValid = True, country = Some US, formatE164 = ''+12015550123''\<rparr>"
  let ?ca = "\<lparr>isValid = True, country = Some CA, formatE164 = ''+15145551234''\<rparr>"
  let ?body = "[Atom (Lit (CHR ''+'')), Atom (Lit (CHR ''1'')), Quant DigitClass 10 10]"
  let ?h = "addCountryValidation phoneParser CA [Quant DigitClass 12 12] heap1"
  have e1: "example_parser ''2015550123'' US = Some ?us"
    and e2: "example_parser ''+15145551234'' CA = Some ?ca"
    by (simp_all add: example_parser_def)
  have g1: "get_prop heap1 (countryValidations phoneParser) (Some US)
      = Some (AssertStart # ?body @ [AssertEnd])"
    by (simp add: get_prop_def heap1_table default_validations_def)
  have g2: "get_prop ?h (countryValidations phoneParser) (Some CA) = Some [Quant DigitClass 12 12]"
    by (simp add: addCountryValidation_def get_set_prop)
  have p1: "parse example_parser heap1 phoneParser ''2015550123'' None = Some ''+12015550123''"
    by code_simp
  have n: "\<not> test [Quant DigitClass 12 12] ''+15145551234''"
    by code_simp
  note A = parse_accepts_only_tested [where lib = example_parser and x = "''2015550123''"
          and cc = None and this = phoneParser and h = heap1 and p = ?us
          and r = "AssertStart # ?body @ [AssertEnd]" and y = "''+12015550123''"
          and body = ?body and s = "''+12015550123''"]
  note B = parse_accepts_only_tested [where lib = example_parser and x = "''+15145551234''"
          and cc = "Some CA" and this = phoneParser and h = ?h and p = ?ca
          and r = "[Quant DigitClass 12 12]"]
  have l: "example_parser ''2015550123'' (case None of None \<Rightarrow> defaultCountry phoneParser
      | Some c \<Rightarrow> c) = Some ?us"
    using e1 by (simp add: phoneParser_default)
  have t: "test (AssertStart # ?body @ [AssertEnd]) ''+12015550123''"
    using A l g1 p1 by simp
  have f: "full_match ?body ''+12015550123''"
    using A t by blast
  have p2: "parse example_parser ?h phoneParser ''+15145551234'' (Some CA) = None"
    using B e2 g2 n by simp
  show ?thesis
    using g1 p1 f g2 n p2 by blast
qed

section \<open>validate\<close>

text \<open>
  C3. For every input and every country code without an entry in the policy table,
  \<open>validate\<close> raises the error "Validation rules not defined for country", whatever
  the input and the external parser; the error is the result of \<open>validate\<close> itself,
  nothing in it catches it.
\<close>

theorem validate_unknown_country:
  "h (countryValidations this) c = None \<Longrightarrow>
   validate lib h this x c
     = Inl (Error (''Validation rules not defined for country: '' @ code_string c))"
  by (simp add: validate_def get_prop_def)

theorem validate_unknown_country_witness:
  "removeCountryValidation phoneParser FR heap1 (countryValidations phoneParser) FR = None
   \<and> validate example_parser (removeCountryValidation phoneParser FR heap1) phoneParser
        ''+33612345678'' FR
      = Inl (Error ''Validation rules not defined for country: FR'')"
proof -
  have a: "removeCountryValidation phoneParser FR heap1 (countryValidations phoneParser) FR = None"
    by (simp add: removeCountryValidation_def delete_prop_def)
  show ?thesis
    using a validate_unknown_country [where h = "removeCountryValidation phoneParser FR heap1"
        and this = phoneParser and c = FR and lib = example_parser and x = "''+33612345678''"]
    by simp
qed

text \<open>
  C4. For every input \<open>x\<close> and every country code \<open>c\<close> with an entry in the policy
  table, \<open>validate(x, c)\<close> returns normally, and returns true exactly when
  \<open>parse(x, c)\<close> is not \<open>null\<close>.
\<close>

theorem validate_iff_parse:
  "h (countryValidations this) c = Some r \<Longrightarrow>
   validate lib h this x c = Inr (parse lib h this x (Some c) \<noteq> None)"
  by (simp add: validate_def get_prop_def)

theorem validate_iff_parse_witness:
  "heap1 (countryValidations phoneParser) UA \<noteq> None
   \<and> validate example_parser heap1 phoneParser ''0671234567'' UA = Inr True
   \<and> parse example_parser heap1 phoneParser ''0671234567'' (Some UA) = Some ''+380671234567''
   \<and> validate example_parser heap1 phoneParser ''+999123456789'' US = Inr False
   \<and> parse example_parser heap1 phoneParser ''+999123456789'' (Some US) = None"
proof -
  let ?ua = "[AssertStart, Atom (Lit (CHR ''+'')), Atom (Lit (CHR ''3'')),
             Atom (Lit (CHR ''8'')), Atom (Lit (CHR ''0'')), Quant DigitClass 9 9, AssertEnd]"
  let ?us = "[AssertStart, Atom (Lit (CHR ''+'')), Atom (Lit (CHR ''1'')),
             Quant DigitClass 10 10, AssertEnd]"
  have a: "heap1 (countryValidations phoneParser) UA = Some ?ua"
    and b: "heap1 (countryValidations phoneParser) US = Some ?us"
    by (simp_all add: heap1_table default_validations_def)
  have p1: "parse example_parser heap1 phoneParser ''0671234567'' (Some UA) = Some ''+380671234567''"
    by code_simp
  have p2: "parse example_parser heap1 phoneParser ''+999123456789'' (Some US) = None"
    by code_simp
  show ?thesis
    using a b p1 p2
      validate_iff_parse [where h = heap1 and this = phoneParser and c = UA and r = ?ua
        and lib = example_parser and x = "''0671234567''"]
      validate_iff_parse [where h = heap1 and this = phoneParser and c = US and r = ?us
        and lib = example_parser and x = "''+999123456789''"]
    by simp
qed

text \<open>
  C10. \<open>validate\<close> looks up only its argument \<open>c\<close>; \<open>parse\<close> then checks the
  pattern of the detected country \<open>d\<close>. When \<open>d\<close> differs from \<open>c\<close> and \<open>d\<close> has no
  entry or its pattern accepts, \<open>validate(x, c)\<close> is true; the pattern of \<open>c\<close> is
  never consulted. In the examples a French number validates as US, although the US
  pattern rejects it, and a number detected as GB validates as UK.
\<close>

theorem validate_ignores_expected_country:
  "h (countryValidations this) c = Some r \<Longrightarrow>
   lib x c = Some p \<Longrightarrow> isValid p \<Longrightarrow> country p = Some d \<Longrightarrow> d \<noteq> c \<Longrightarrow>
   h (countryValidations this) d = None
     \<or> (\<exists>r'. h (countryValidations this) d = Some r' \<and> test r' (formatE164 p)) \<Longrightarrow>
   validate lib h this x c = Inr True"
  by (auto simp: validate_def parse_def get_prop_def)

theorem validate_ignores_expected_country_witness:
  "heap1 (countryValidations phoneParser) US
     = Some [AssertStart, Atom (Lit (CHR ''+'')), Atom (Lit (CHR ''1'')),
             Quant DigitClass 10 10, AssertEnd]
   \<and> example_parser ''+33612345678'' US
     = Some \<lparr>isValid = True, country = Some FR, formatE164 = ''+33612345678''\<rparr>
   \<and> FR \<noteq> US
   \<and> (\<exists>r'. heap1 (countryValidations phoneParser) FR = Some r' \<and> test r' ''+33612345678'')
   \<and> \<not> test [AssertStart, Atom (Lit (CHR ''+'')), Atom (Lit (CHR ''1'')),
             Quant DigitClass 10 10, AssertEnd] ''+33612345678''
   \<and> validate example_parser heap1 phoneParser ''+33612345678'' US = Inr True
   \<and> heap1 (countryValidations phoneParser) UK \<noteq> None
   \<and> example_parser ''+442071838750'' UK
     = Some \<lparr>isValid = True, country = Some GB, formatE164 = ''+442071838750''\<rparr>
   \<and> heap1 (countryValidations phoneParser) GB = None
   \<and> validate example_parser heap1 phoneParser ''+442071838750'' UK = Inr True"
proof -
  let ?us = "[AssertStart, Atom (Lit (CHR ''+'')), Atom (Lit (CHR ''1'')),
             Quant DigitClass 10 10, AssertEnd]"
  let ?uk = "[AssertStart, Atom (Lit (CHR ''+'')), Atom (Lit (CHR ''4'')),
             Atom (Lit (CHR ''4'')), Quant DigitClass 10 10, AssertEnd]"
  let ?fr = "[AssertStart, Atom (Lit (CHR ''+'')), Atom (Lit (CHR ''3'')),
             Atom (Lit (CHR ''3'')), Quant DigitClass 9 9, AssertEnd]"
  let ?pf = "\<lparr>isValid = True, country = Some FR, formatE164 = ''+33612345678''\<rparr>"
  let ?pg = "\<lparr>isValid = True, country = Some GB, formatE164 = ''+442071838750''\<rparr>"
  have us: "heap1 (countryValidations phoneParser) US = Some ?us"
    and uk: "heap1 (countryValidations phoneParser) UK = Some ?uk"
    and fr: "heap1 (countryValidations phoneParser) FR = Some ?fr"
    and gb: "heap1 (countryValidations phoneParser) GB = None"
    by (simp_all add: heap1_table default_validations_def)
  have e1: "example_parser ''+33612345678'' US = Some ?pf"
    and e2: "example_parser ''+442071838750'' UK = Some ?pg"
    by (simp_all add: example_parser_def)
  have t: "test ?fr ''+33612345678''"
    by code_simp
  have n: "\<not> test ?us ''+33612345678''"
    by code_simp
  have v1: "validate example_parser heap1 phoneParser ''+33612345678'' US = Inr True"
    using validate_ignores_expected_country [where h = heap1 and this = phoneParser
        and c = US and r = ?us and lib = example_parser and x = "''+33612345678''"
        and p = ?pf and d = FR] us e1 fr t
    by simp
  have v2: "validate example_parser heap1 phoneParser ''+442071838750'' UK = Inr True"
    using validate_ignores_expected_country [where h = heap1 and this = phoneParser
        and c = UK and r = ?uk and lib = example_parser and x = "''+442071838750''"
        and p = ?pg and d = GB] uk e2 gb
    by simp
  show ?thesis
    using us uk fr gb e1 e2 t n v1 v2 by simp
qed

section \<open>The policy table\<close>

text \<open>
  C5, as stated, fails: \<open>listSupportedCountries\<close> returns the table object itself.
  Deleting the key US through the returned reference makes a later \<open>validate\<close> for
  US raise, where it returned true before.
\<close>

theorem listSupportedCountries_alias_counterexample:
  "validate example_parser heap1 phoneParser ''2015550123'' US = Inr True
   \<and> validate example_parser
         (delete_prop heap1 (listSupportedCountries phoneParser) US) phoneParser
         ''2015550123'' US
       = Inl (Error ''Validation rules not defined for country: US'')"
proof -
  have "validate example_parser heap1 phoneParser ''2015550123'' US = Inr True"
    by code_simp
  moreover have "validate example_parser
         (delete_prop heap1 (listSupportedCountries phoneParser) US) phoneParser
         ''2015550123'' US
       = Inl (Error ''Validation rules not defined for country: US'')"
    by (simp add: validate_def listSupportedCountries_def get_delete_prop)
  ultimately show ?thesis by blast
qed

text \<open>
  C5, amended. \<open>listSupportedCountries\<close> returns the reference to the instance's own
  policy table, neither a copy nor a read-only view: an assignment or a \<open>delete\<close>
  through the returned reference is what \<open>addCountryValidation\<close> and
  \<open>removeCountryValidation\<close> do, and later calls of \<open>validate\<close> observe it.
\<close>

theorem listSupportedCountries_returns_table:
  "listSupportedCountries this = countryValidations this
   \<and> set_prop h (listSupportedCountries this) c r = addCountryValidation this c r h
   \<and> delete_prop h (listSupportedCountries this) c = removeCountryValidation this c h
   \<and> validate lib (set_prop h (listSupportedCountries this) c r) this x c
       = Inr (parse lib (set_prop h (listSupportedCountries this) c r) this x (Some c) \<noteq> None)
   \<and> validate lib (delete_prop h (listSupportedCountries this) c) this x c
       = Inl (Error (''Validation rules not defined for country: '' @ code_string c))"
  by (simp add: listSupportedCountries_def addCountryValidation_def
      removeCountryValidation_def validate_def get_set_prop get_delete_prop)

text \<open>
  C6. For every country code and pattern, \<open>addCountryValidation\<close> called twice with
  the same arguments leaves the store, and so the policy table, as one call leaves it.
\<close>

theorem addCountryValidation_idempotent:
  "addCountryValidation this c p (addCountryValidation this c p h)
     = addCountryValidation this c p h"
  by (simp add: addCountryValidation_def set_prop_def)

text \<open>
  C7. \<open>removeCountryValidation\<close> has no failing branch. For every country code and
  starting table, the entry is absent after the first call, the second call changes
  nothing, a call on a table without the entry changes nothing, and the other entries
  are kept.
\<close>

theorem removeCountryValidation_twice:
  "get_prop (removeCountryValidation this c h) (countryValidations this) (Some c) = None
   \<and> removeCountryValidation this c (removeCountryValidation this c h)
       = removeCountryValidation this c h
   \<and> (h (countryValidations this) c = None \<longrightarrow> removeCountryValidation this c h = h)
   \<and> (c' \<noteq> c \<longrightarrow>
        get_prop (removeCountryValidation this c h) (countryValidations this) (Some c')
          = get_prop h (countryValidations this) (Some c'))"
proof -
  have "h (countryValidations this) c = None \<Longrightarrow> (h (countryValidations this))(c := None) = h (countryValidations this)"
    by (rule ext) simp
  then show ?thesis
    by (simp add: removeCountryValidation_def delete_prop_def get_prop_def)
qed

theorem removeCountryValidation_twice_witness:
  "removeCountryValidation phoneParser FR heap1 (countryValidations phoneParser) FR = None
   \<and> removeCountryValidation phoneParser FR (removeCountryValidation phoneParser FR heap1)
       = removeCountryValidation phoneParser FR heap1
   \<and> DE \<noteq> FR
   \<and> get_prop (removeCountryValidation phoneParser FR heap1) (countryValidations phoneParser)
        (Some DE)
      = Some [AssertStart, Atom (Lit (CHR ''+'')), Atom (Lit (CHR ''4'')),
              Atom (Lit (CHR ''9'')), Quant DigitClass 10 11, AssertEnd]"
proof -
  have a: "removeCountryValidation phoneParser FR heap1 (countryValidations phoneParser) FR = None"
    by (simp add: removeCountryValidation_def delete_prop_def)
  have d: "get_prop heap1 (countryValidations phoneParser) (Some DE)
      = Some [AssertStart, Atom (Lit (CHR ''+'')), Atom (Lit (CHR ''4'')),
              Atom (Lit (CHR ''9'')), Quant DigitClass 10 11, AssertEnd]"
    by (simp add: get_prop_def heap1_table default_validations_def)
  show ?thesis
    using a d
      removeCountryValidation_twice [where this = phoneParser and c = FR
        and h = "removeCountryValidation phoneParser FR heap1"]
      removeCountryValidation_twice [where this = phoneParser and c = FR and h = heap1
        and c' = DE]
    by simp
qed

text \<open>
  C8. For every pattern \<open>p\<close>, after \<open>addCountryValidation('CA', p)\<close> the mapping that
  \<open>listSupportedCountries\<close> returns has \<open>CA\<close> mapped to \<open>p\<close>, and after a following
  \<open>removeCountryValidation('CA')\<close> it has no key \<open>CA\<close>.
\<close>

theorem add_list_remove_roundtrip:
  "get_prop (addCountryValidation this CA p h) (listSupportedCountries this) (Some CA) = Some p
   \<and> get_prop (removeCountryValidation this CA (addCountryValidation this CA p h))
        (listSupportedCountries this) (Some CA) = None"
  by (simp add: addCountryValidation_def removeCountryValidation_def
      listSupportedCountries_def get_set_prop get_delete_prop)

section \<open>The default table\<close>

lemma language_US:
  "test [AssertStart, Atom (Lit (CHR ''+'')), Atom (Lit (CHR ''1'')),
         Quant DigitClass 10 10, AssertEnd] s
   = (\<exists>ds. s = ''+1'' @ ds \<and> length ds = 10 \<and> set ds \<subseteq> set ''0123456789'')"
  by (auto simp: test_anchored match_lit digits_language digit_string)

lemma language_UK:
  "test [AssertStart, Atom (Lit (CHR ''+'')), Atom (Lit (CHR ''4'')),
         Atom (Lit (CHR ''4'')), Quant DigitClass 10 10, AssertEnd] s
   = (\<exists>ds. s = ''+44'' @ ds \<and> length ds = 10 \<and> set ds \<subseteq> set ''0123456789'')"
  by (auto simp: test_anchored match_lit digits_language digit_string)

lemma language_UA:
  "test [AssertStart, Atom (Lit (CHR ''+'')), Atom (Lit (CHR ''3'')),
         Atom (Lit (CHR ''8'')), Atom (Lit (CHR ''0'')), Quant DigitClass 9 9, AssertEnd] s
   = (\<exists>ds. s = ''+380'' @ ds \<and> length ds = 9 \<and> set ds \<subseteq> set ''0123456789'')"
  by (auto simp: test_anchored match_lit digits_language digit_string)

lemma language_FR:
  "test [AssertStart, Atom (Lit (CHR ''+'')), Atom (Lit (CHR ''3'')),
         Atom (Lit (CHR ''3'')), Quant DigitClass 9 9, AssertEnd] s
   = (\<exists>ds. s = ''+33'' @ ds \<and> length ds = 9 \<and> set ds \<subseteq> set ''0123456789'')"
  by (auto simp: test_anchored match_lit digits_language digit_string)

lemma language_DE:
  "test [AssertStart, Atom (Lit (CHR ''+'')), Atom (Lit (CHR ''4'')),
         Atom (Lit (CHR ''9'')), Quant DigitClass 10 11, AssertEnd] s
   = (\<exists>ds. s = ''+49'' @ ds \<and> (length ds = 10 \<or> length ds = 11)
        \<and> set ds \<subseteq> set ''0123456789'')"
  by (auto simp: test_anchored match_lit digits_language digit_string)

lemma dom_default_validations: "dom default_validations = {US, UK, UA, FR, DE}"
  by (auto simp: default_validations_def split: if_splits)

lemma constructor_table:
  "fst (constructor a h) (countryValidations (snd (constructor a h))) = default_validations"
  by (simp add: constructor_def)

text \<open>
  C9. The table of a new instance has exactly the keys US, UK, UA, FR and DE, with the
  patterns \<open>^\+1\d{10}$\<close>, \<open>^\+44\d{10}$\<close>, \<open>^\+380\d{9}$\<close>, \<open>^\+33\d{9}$\<close> and
  \<open>^\+49\d{10,11}$\<close>: each accepts exactly the strings made of its prefix and the
  stated number of decimal digits.
\<close>

theorem constructor_default_table:
  "dom (fst (constructor a h) (countryValidations (snd (constructor a h))))
     = {US, UK, UA, FR, DE}
   \<and> (\<exists>r. fst (constructor a h) (countryValidations (snd (constructor a h))) US = Some r
        \<and> r = [AssertStart, Atom (Lit (CHR ''+'')), Atom (Lit (CHR ''1'')),
               Quant DigitClass 10 10, AssertEnd]
        \<and> (\<forall>s. test r s
             = (\<exists>ds. s = ''+1'' @ ds \<and> length ds = 10 \<and> set ds \<subseteq> set ''0123456789'')))
   \<and> (\<exists>r. fst (constructor a h) (countryValidations (snd (constructor a h))) UK = Some r
        \<and> r = [AssertStart, Atom (Lit (CHR ''+'')), Atom (Lit (CHR ''4'')),
               Atom (Lit (CHR ''4'')), Quant DigitClass 10 10, AssertEnd]
        \<and> (\<forall>s. test r s
             = (\<exists>ds. s = ''+44'' @ ds \<and> length ds = 10 \<and> set ds \<subseteq> set ''0123456789'')))
   \<and> (\<exists>r. fst (constructor a h) (countryValidations (snd (constructor a h))) UA = Some r
        \<and> r = [AssertStart, Atom (Lit (CHR ''+'')), Atom (Lit (CHR ''3'')),
               Atom (Lit (CHR ''8'')), Atom (Lit (CHR ''0'')), Quant DigitClass 9 9,
               AssertEnd]
        \<and> (\<forall>s. test r s
             = (\<exists>ds. s = ''+380'' @ ds \<and> length ds = 9 \<and> set ds \<subseteq> set ''0123456789'')))
   \<and> (\<exists>r. fst (constructor a h) (countryValidations (snd (constructor a h))) FR = Some r
        \<and> r = [AssertStart, Atom (Lit (CHR ''+'')), Atom (Lit (CHR ''3'')),
               Atom (Lit (CHR ''3'')), Quant DigitClass 9 9, AssertEnd]
        \<and> (\<forall>s. test r s
             = (\<exists>ds. s = ''+33'' @ ds \<and> length ds = 9 \<and> set ds \<subseteq> set ''0123456789'')))
   \<and> (\<exists>r. fst (constructor a h) (countryValidations (snd (constructor a h))) DE = Some r
        \<and> r = [AssertStart, Atom (Lit (CHR ''+'')), Atom (Lit (CHR ''4'')),
               Atom (Lit (CHR ''9'')), Quant DigitClass 10 11, AssertEnd]
        \<and> (\<forall>s. test r s
             = (\<exists>ds. s = ''+49'' @ ds \<and> (length ds = 10 \<or> length ds = 11)
                  \<and> set ds \<subseteq> set ''0123456789'')))"
proof -
  have t: "fst (constructor a h) (countryValidations (snd (constructor a h)))
      = default_validations"
    by (rule constructor_table)
  have "dom default_validations = {US, UK, UA, FR, DE}"
    by (rule dom_default_validations)
  moreover have "default_validations US
      = Some [AssertStart, Atom (Lit (CHR ''+'')), Atom (Lit (CHR ''1'')),
               Quant DigitClass 10 10, AssertEnd]"
    by (simp add: default_validations_def)
  moreover have "default_validations UK
      = Some [AssertStart, Atom (Lit (CHR ''+'')), Atom (Lit (CHR ''4'')),
               Atom (Lit (CHR ''4'')), Quant DigitClass 10 10, AssertEnd]"
    by (simp add: default_validations_def)
  moreover have "default_validations UA
      = Some [AssertStart, Atom (Lit (CHR ''+'')), Atom (Lit (CHR ''3'')),
               Atom (Lit (CHR ''8'')), Atom (Lit (CHR ''0'')), Quant DigitClass 9 9,
               AssertEnd]"
    by (simp add: default_validations_def)
  moreover have "default_validations FR
      = Some [AssertStart, Atom (Lit (CHR ''+'')), Atom (Lit (CHR ''3'')),
               Atom (Lit (CHR ''3'')), Quant DigitClass 9 9, AssertEnd]"
    by (simp add: default_validations_def)
  moreover have "default_validations DE
      = Some [AssertStart, Atom (Lit (CHR ''+'')), Atom (Lit (CHR ''4'')),
               Atom (Lit (CHR ''9'')), Quant DigitClass 10 11, AssertEnd]"
    by (simp add: default_validations_def)
  ultimately show ?thesis
    unfolding t
    using language_US language_UK language_UA language_FR language_DE
    by (intro conjI exI) (assumption | rule refl | blast)+
qed

end
